theory Spec2Isabelle
  imports
    Complex_Main
    "HOL-Library.Multiset"
    "HOL-Library.Char_ord"
    "HOL-Library.List_Lexorder"
    "HOL-Library.Product_Lexorder"
begin

section \<open>The COVID-19 analysis notebook\<close>

text \<open>
  The program is one notebook, \<^verbatim>\<open>covid_data_analysis.ipynb\<close>, whose cells run from top
  to bottom: four \<^verbatim>\<open>pd.read_csv\<close> calls, the cleaning of three of the tables, the
  aggregations, the charts and four \<^verbatim>\<open>to_csv\<close> calls. A data frame is modelled as
  the list of its rows, a row as a record with one field per column the notebook names;
  the columns of an input file that the notebook never names are the record's extension
  part. Each assignment of the notebook is one definition below, under the name of the
  variable it assigns.
\<close>

subsection \<open>Cells and rows\<close>

text \<open>
  A cell of a \<^verbatim>\<open>Date\<close> column. \<^verbatim>\<open>read_csv\<close> loads the column as text;
  \<^verbatim>\<open>pd.to_datetime\<close> replaces it, in the same frame, by timestamps. \<open>NaT\<close> is the
  missing value of either form. A timestamp is a point on the time line, an integer.
\<close>

datatype date_cell = Text string | Timestamp int | NaT

text \<open>
  \<^verbatim>\<open>day_wise.csv\<close>: the columns the notebook reads (the chart cells name all eight).
\<close>

record day_wise_row =
  Date :: date_cell
  Confirmed :: int
  Deaths :: int
  Recovered :: int
  Active :: int
  New_cases :: int
  New_deaths :: int
  New_recovered :: int

text \<open>
  The seven columns of \<^verbatim>\<open>full_grouped_relevant\<close>. A row of \<^verbatim>\<open>full_grouped.csv\<close> is any
  extension of this record. The count columns of that file are taken to be complete
  integer columns: a count is an integer, and the sums below are taken to stay within
  the 64 bits in which the library holds it.
\<close>

record country_day =
  Date :: date_cell
  Country_Region :: string
  Confirmed :: int
  Deaths :: int
  Recovered :: int
  Active :: int
  WHO_Region :: string

text \<open>
  The eight columns of \<^verbatim>\<open>worldometer_data.csv\<close> that the notebook keeps, under their
  names in that file. A cell of any column but the country's name may be missing (NaN):
  \<open>None\<close>.
\<close>

record worldometer_row =
  Country_Region :: string
  Continent :: "string option"
  TotalCases :: "int option"
  TotalDeaths :: "int option"
  TotalRecovered :: "int option"
  ActiveCases :: "int option"
  WHO_Region :: "string option"
  Population :: "int option"

text \<open>The same eight columns after \<^verbatim>\<open>rename(columns={...})\<close>.\<close>

record country_snapshot =
  Country_Region :: string
  Continent :: "string option"
  Confirmed :: "int option"
  Deaths :: "int option"
  Recovered :: "int option"
  Active :: "int option"
  WHO_Region :: "string option"
  Population :: "int option"

subsection \<open>Errors\<close>

text \<open>
  The notebook catches nothing: an exception raised in a cell ends the run. The ones
  modelled are those of the load cell (a file that is not there, a file that does not
  read as a table) and of \<^verbatim>\<open>pd.to_datetime\<close>; the argument is the file's path or the
  text that did not parse.
\<close>

datatype error = FileNotFoundError string | ParserError string | DateParseError string

subsection \<open>Cleaning (section 2 of the notebook)\<close>

text \<open>
  \<^verbatim>\<open>pd.to_datetime(df['Date'])\<close>. The library's parser of one date text is the
  parameter \<open>parse\<close>; a text it rejects raises. A missing cell becomes \<open>NaT\<close>.
\<close>

fun to_datetime_cell :: "(string \<Rightarrow> int option) \<Rightarrow> date_cell \<Rightarrow> error + date_cell" where
  "to_datetime_cell parse (Text s) =
     (case parse s of None \<Rightarrow> Inl (DateParseError s) | Some t \<Rightarrow> Inr (Timestamp t))"
| "to_datetime_cell parse (Timestamp t) = Inr (Timestamp t)"
| "to_datetime_cell parse NaT = Inr NaT"

fun to_datetime :: "(string \<Rightarrow> int option) \<Rightarrow> date_cell list \<Rightarrow> error + date_cell list" where
  "to_datetime parse [] = Inr []"
| "to_datetime parse (c # cs) =
     (case to_datetime_cell parse c of
        Inl e \<Rightarrow> Inl e
      | Inr d \<Rightarrow> (case to_datetime parse cs of Inl e \<Rightarrow> Inl e | Inr ds \<Rightarrow> Inr (d # ds)))"

text \<open>
  \<^verbatim>\<open>day_wise_df['Date'] = pd.to_datetime(day_wise_df['Date'])\<close>: the column is
  replaced in the frame, every other column stays.
\<close>

definition day_wise_dates ::
  "(string \<Rightarrow> int option) \<Rightarrow> 'a day_wise_row_scheme list \<Rightarrow> error + 'a day_wise_row_scheme list" where
  "day_wise_dates parse df =
     (case to_datetime parse (map day_wise_row.Date df) of
        Inl e \<Rightarrow> Inl e
      | Inr ds \<Rightarrow> Inr (map (\<lambda>(r, d). r\<lparr>day_wise_row.Date := d\<rparr>) (zip df ds)))"

text \<open>\<^verbatim>\<open>full_grouped_df['Date'] = pd.to_datetime(full_grouped_df['Date'])\<close>.\<close>

definition full_grouped_dates ::
  "(string \<Rightarrow> int option) \<Rightarrow> 'a country_day_scheme list \<Rightarrow> error + 'a country_day_scheme list" where
  "full_grouped_dates parse df =
     (case to_datetime parse (map country_day.Date df) of
        Inl e \<Rightarrow> Inl e
      | Inr ds \<Rightarrow> Inr (map (\<lambda>(r, d). r\<lparr>country_day.Date := d\<rparr>) (zip df ds)))"

text \<open>\<^verbatim>\<open>full_grouped_df[full_grouped_df['Confirmed'] >= 15]\<close>.\<close>

definition full_grouped_filtered :: "'a country_day_scheme list \<Rightarrow> 'a country_day_scheme list" where
  "full_grouped_filtered full_grouped_df =
     filter (\<lambda>r. 15 \<le> country_day.Confirmed r) full_grouped_df"

text \<open>
  \<^verbatim>\<open>full_grouped_filtered[['Date', 'Country/Region', 'Confirmed', 'Deaths', 'Recovered',
  'Active', 'WHO Region']]\<close>: the projection drops the extension part of every row.
\<close>

definition full_grouped_relevant :: "'a country_day_scheme list \<Rightarrow> country_day list" where
  "full_grouped_relevant full_grouped_df =
     map country_day.truncate (full_grouped_filtered full_grouped_df)"

text \<open>
  The comparison \<^verbatim>\<open>worldometer_df['TotalCases'] >= 15\<close> on one cell: false on a missing
  one.
\<close>

fun ge_15 :: "int option \<Rightarrow> bool" where
  "ge_15 None = False"
| "ge_15 (Some n) = (15 \<le> n)"

definition worldometer_filtered :: "'a worldometer_row_scheme list \<Rightarrow> 'a worldometer_row_scheme list" where
  "worldometer_filtered worldometer_df = filter (\<lambda>r. ge_15 (TotalCases r)) worldometer_df"

text \<open>
  \<^verbatim>\<open>rename(columns={'TotalCases': 'Confirmed', 'TotalDeaths': 'Deaths', 'TotalRecovered':
  'Recovered', 'ActiveCases': 'Active'})\<close> on one row of the eight kept columns.
\<close>

definition rename_columns :: "worldometer_row \<Rightarrow> country_snapshot" where
  "rename_columns r =
     \<lparr>country_snapshot.Country_Region = worldometer_row.Country_Region r,
      country_snapshot.Continent = worldometer_row.Continent r,
      country_snapshot.Confirmed = TotalCases r,
      country_snapshot.Deaths = TotalDeaths r,
      country_snapshot.Recovered = TotalRecovered r,
      country_snapshot.Active = ActiveCases r,
      country_snapshot.WHO_Region = worldometer_row.WHO_Region r,
      country_snapshot.Population = worldometer_row.Population r\<rparr>"

text \<open>
  \<^verbatim>\<open>worldometer_relevant\<close>: the projection of the filtered frame on the eight columns,
  then the renaming.
\<close>

definition worldometer_relevant :: "'a worldometer_row_scheme list \<Rightarrow> country_snapshot list" where
  "worldometer_relevant worldometer_df =
     map rename_columns (map worldometer_row.truncate (worldometer_filtered worldometer_df))"

subsection \<open>The latest snapshot (section 3.2)\<close>

text \<open>
  \<^verbatim>\<open>full_grouped_relevant['Date'].max()\<close> on the converted column: the greatest
  timestamp, missing cells skipped, and \<open>NaT\<close> when the column holds no timestamp.
\<close>

fun timestamps :: "date_cell list \<Rightarrow> int list" where
  "timestamps [] = []"
| "timestamps (Timestamp t # cs) = t # timestamps cs"
| "timestamps (c # cs) = timestamps cs"

definition column_max :: "date_cell list \<Rightarrow> date_cell" where
  "column_max cs =
     (case timestamps cs of [] \<Rightarrow> NaT | t # ts \<Rightarrow> Timestamp (fold max ts t))"

definition latest_date :: "country_day list \<Rightarrow> date_cell" where
  "latest_date full_grouped_relevant_df = column_max (map country_day.Date full_grouped_relevant_df)"

text \<open>The comparison \<^verbatim>\<open>==\<close> of two date cells: \<open>NaT\<close> equals nothing, itself included.\<close>

fun date_eq :: "date_cell \<Rightarrow> date_cell \<Rightarrow> bool" where
  "date_eq NaT d = False"
| "date_eq c NaT = False"
| "date_eq c d = (c = d)"

text \<open>\<^verbatim>\<open>full_grouped_relevant[full_grouped_relevant['Date'] == latest_date]\<close>.\<close>

definition latest_data :: "country_day list \<Rightarrow> country_day list" where
  "latest_data full_grouped_relevant_df =
     filter (\<lambda>r. date_eq (country_day.Date r) (latest_date full_grouped_relevant_df))
       full_grouped_relevant_df"

subsection \<open>Rates\<close>

text \<open>
  A value of a float column. The quotient of two integer columns is a float column: a
  zero divisor gives an infinity, or NaN for \<open>0 / 0\<close>, and raises nothing. The finite
  values are kept as exact rationals: rounding to 53 bits is not modelled, and nothing
  below depends on it.
\<close>

datatype float64 = Finite rat | PosInf | NegInf | NaN

definition true_divide :: "int \<Rightarrow> int \<Rightarrow> float64" where
  "true_divide a b =
     (if b = 0 then (if a = 0 then NaN else if 0 < a then PosInf else NegInf)
      else Finite (rat_of_int a / rat_of_int b))"

fun multiply :: "float64 \<Rightarrow> rat \<Rightarrow> float64" where
  "multiply (Finite q) k = Finite (q * k)"
| "multiply PosInf k = (if 0 < k then PosInf else if k < 0 then NegInf else NaN)"
| "multiply NegInf k = (if 0 < k then NegInf else if k < 0 then PosInf else NaN)"
| "multiply NaN k = NaN"

text \<open>\<^verbatim>\<open>(df['Deaths'] / df['Confirmed']) * 100\<close> on one row.\<close>

definition mortality_rate :: "int \<Rightarrow> int \<Rightarrow> float64" where
  "mortality_rate deaths confirmed = multiply (true_divide deaths confirmed) 100"

fun is_finite :: "float64 \<Rightarrow> bool" where
  "is_finite (Finite q) = True"
| "is_finite x = False"

text \<open>
  \<^verbatim>\<open>latest_data['Mortality Rate (%)'] = (latest_data['Deaths'] / latest_data['Confirmed'])
  * 100\<close>: the frame gets an eighth column. From that cell on, \<^verbatim>\<open>latest_data\<close> is the
  frame with the column; it is the one written to \<^verbatim>\<open>latest_covid_data.csv\<close>.
\<close>

record latest_row = country_day +
  Mortality_Rate :: float64

definition with_mortality_rate :: "country_day list \<Rightarrow> latest_row list" where
  "with_mortality_rate latest =
     map (\<lambda>r. country_day.extend r
            (latest_row.fields (mortality_rate (country_day.Deaths r) (country_day.Confirmed r))))
       latest"

subsection \<open>Aggregation by WHO region (section 3.3)\<close>

text \<open>
  \<^verbatim>\<open>latest_data.groupby('WHO Region').agg({'Confirmed': 'sum', 'Deaths': 'sum',
  'Recovered': 'sum', 'Active': 'sum'}).reset_index()\<close>. The rows are read in order; each
  either opens the group of its region or is added to it. The groups are kept in the
  order of their keys, which is the order of the result's rows.
\<close>

record region_sums =
  WHO_Region :: string
  Confirmed :: int
  Deaths :: int
  Recovered :: int
  Active :: int

definition new_group :: "'a country_day_scheme \<Rightarrow> region_sums" where
  "new_group r =
     \<lparr>region_sums.WHO_Region = country_day.WHO_Region r,
      region_sums.Confirmed = country_day.Confirmed r,
      region_sums.Deaths = country_day.Deaths r,
      region_sums.Recovered = country_day.Recovered r,
      region_sums.Active = country_day.Active r\<rparr>"

definition add_to_group :: "region_sums \<Rightarrow> 'a country_day_scheme \<Rightarrow> region_sums" where
  "add_to_group g r =
     g\<lparr>region_sums.Confirmed := region_sums.Confirmed g + country_day.Confirmed r,
       region_sums.Deaths := region_sums.Deaths g + country_day.Deaths r,
       region_sums.Recovered := region_sums.Recovered g + country_day.Recovered r,
       region_sums.Active := region_sums.Active g + country_day.Active r\<rparr>"

fun group_row :: "'a country_day_scheme \<Rightarrow> region_sums list \<Rightarrow> region_sums list" where
  "group_row r [] = [new_group r]"
| "group_row r (g # gs) =
     (if country_day.WHO_Region r = region_sums.WHO_Region g then add_to_group g r # gs
      else if country_day.WHO_Region r < region_sums.WHO_Region g then new_group r # g # gs
      else g # group_row r gs)"

definition groupby_sum :: "'a country_day_scheme list \<Rightarrow> region_sums list" where
  "groupby_sum latest = foldl (\<lambda>gs r. group_row r gs) [] latest"

text \<open>
  \<^verbatim>\<open>region_data['Mortality Rate (%)'] = (region_data['Deaths'] / region_data['Confirmed'])
  * 100\<close>.
\<close>

record region_row = region_sums +
  Mortality_Rate :: float64

definition region_data :: "'a country_day_scheme list \<Rightarrow> region_row list" where
  "region_data latest =
     map (\<lambda>g. region_sums.extend g
            (region_row.fields (mortality_rate (region_sums.Deaths g) (region_sums.Confirmed g))))
       (groupby_sum latest)"

text \<open>
  The specification's reading of one group, for comparison: the sums of the four count
  columns over the rows of a frame that carry the region \<open>k\<close>.
\<close>

definition region_total :: "string \<Rightarrow> 'a country_day_scheme list \<Rightarrow> region_sums" where
  "region_total k df =
     \<lparr>region_sums.WHO_Region = k,
      Confirmed = (\<Sum>r\<leftarrow>filter (\<lambda>r. country_day.WHO_Region r = k) df. country_day.Confirmed r),
      Deaths = (\<Sum>r\<leftarrow>filter (\<lambda>r. country_day.WHO_Region r = k) df. country_day.Deaths r),
      Recovered = (\<Sum>r\<leftarrow>filter (\<lambda>r. country_day.WHO_Region r = k) df. country_day.Recovered r),
      Active = (\<Sum>r\<leftarrow>filter (\<lambda>r. country_day.WHO_Region r = k) df. country_day.Active r)\<rparr>"

subsection \<open>Top-N selections (sections 3.2, 3.4)\<close>

text \<open>
  \<^verbatim>\<open>df.sort_values(col, ascending=False)\<close>. The call names no \<^verbatim>\<open>kind\<close>, so the library
  sorts with its default algorithm, which it documents as not stable: the result holds
  the rows of \<open>df\<close> in an order in which the key never increases, and the order of rows
  with equal keys is the algorithm's. The model is the set of the results the call may
  return.
\<close>

definition sort_values_desc :: "('r \<Rightarrow> 'k::linorder) \<Rightarrow> 'r list \<Rightarrow> 'r list set" where
  "sort_values_desc key df = {s. mset s = mset df \<and> sorted_wrt (\<lambda>a b. key b \<le> key a) s}"

text \<open>\<^verbatim>\<open>df.head(n)\<close>: the first \<open>n\<close> rows, all of them when there are fewer.\<close>

definition head :: "nat \<Rightarrow> 'r list \<Rightarrow> 'r list" where
  "head n df = take n df"

text \<open>\<^verbatim>\<open>latest_data.sort_values('Confirmed', ascending=False).head(15)\<close>.\<close>

definition top_countries :: "'a country_day_scheme list \<Rightarrow> 'a country_day_scheme list set" where
  "top_countries latest = head 15 ` sort_values_desc country_day.Confirmed latest"

text \<open>\<^verbatim>\<open>latest_data.sort_values('Deaths', ascending=False).head(15)\<close>.\<close>

definition top_deaths :: "'a country_day_scheme list \<Rightarrow> 'a country_day_scheme list set" where
  "top_deaths latest = head 15 ` sort_values_desc country_day.Deaths latest"

text \<open>
  The order of a float column under a descending sort: positive infinity first, the
  finite values, negative infinity, and NaN last.
\<close>

fun float_order :: "float64 \<Rightarrow> int \<times> rat" where
  "float_order PosInf = (1, 0)"
| "float_order (Finite q) = (0, q)"
| "float_order NegInf = (- 1, 0)"
| "float_order NaN = (- 2, 0)"

text \<open>
  \<^verbatim>\<open>latest_data[latest_data['Confirmed'] >= 1000].sort_values('Mortality Rate (%)',
  ascending=False).head(15)\<close>.
\<close>

definition mortality_data :: "latest_row list \<Rightarrow> latest_row list set" where
  "mortality_data latest =
     head 15 ` sort_values_desc (\<lambda>r. float_order (latest_row.Mortality_Rate r))
       (filter (\<lambda>r. 1000 \<le> country_day.Confirmed r) latest)"

text \<open>
  \<^verbatim>\<open>latest_data.sort_values('Confirmed', ascending=False).head(5)['Country/Region']
  .tolist()\<close>.
\<close>

definition top_5_countries :: "'a country_day_scheme list \<Rightarrow> string list set" where
  "top_5_countries latest =
     (\<lambda>s. map country_day.Country_Region (head 5 s)) ` sort_values_desc country_day.Confirmed latest"

text \<open>
  The specification's reading of the same call, for comparison: a stable descending
  sort, in which rows with equal keys keep the order they have in the source frame.
\<close>

fun insert_desc :: "('r \<Rightarrow> 'k::linorder) \<Rightarrow> 'r \<Rightarrow> 'r list \<Rightarrow> 'r list" where
  "insert_desc key x [] = [x]"
| "insert_desc key x (y # ys) =
     (if key y \<le> key x then x # y # ys else y # insert_desc key x ys)"

definition stable_sort_desc :: "('r \<Rightarrow> 'k::linorder) \<Rightarrow> 'r list \<Rightarrow> 'r list" where
  "stable_sort_desc key df = foldr (insert_desc key) df []"

subsection \<open>Files and the run\<close>

text \<open>
  An input file is not there, or does not read as a table, or holds the table that
  \<^verbatim>\<open>pd.read_csv(path)\<close> returns for it. How the text of a file encodes the cells is the
  library's matter and is not modelled.
\<close>

datatype 'r input_file = Missing | Unreadable | Table "'r list"

definition read_csv :: "string \<Rightarrow> 'r input_file \<Rightarrow> error + 'r list" where
  "read_csv path f =
     (case f of
        Missing \<Rightarrow> Inl (FileNotFoundError path)
      | Unreadable \<Rightarrow> Inl (ParserError path)
      | Table df \<Rightarrow> Inr df)"

text \<open>A file that \<^verbatim>\<open>read_csv\<close> reads: it is there and holds a table.\<close>

fun readable :: "'r input_file \<Rightarrow> bool" where
  "readable (Table df) = True"
| "readable f = False"

text \<open>
  What \<^verbatim>\<open>df.to_csv(path, index=False)\<close> writes: the frame's rows, one record each,
  after a header line (the library's default), separated by commas (its default), and
  with or without a leading column of row labels as \<^verbatim>\<open>index\<close> says.
\<close>

record 'r csv =
  header :: bool
  sep :: char
  index :: bool
  records :: "'r list"

definition to_csv :: "'r list \<Rightarrow> bool \<Rightarrow> 'r csv" where
  "to_csv df index_arg = \<lparr>header = True, sep = CHR '','', index = index_arg, records = df\<rparr>"

text \<open>
  The eight files the notebook names: the four it reads under
  \<^verbatim>\<open>attached_assets/\<close> and the four it writes (\<open>None\<close>: no such file). The rows of
  \<^verbatim>\<open>usa_county_wise.csv\<close> are loaded and shown, and never used.
\<close>

record ('a, 'b, 'c, 'd) files =
  day_wise_csv :: "'a day_wise_row_scheme input_file"
  full_grouped_csv :: "'b country_day_scheme input_file"
  usa_county_wise_csv :: "'c input_file"
  worldometer_data_csv :: "'d worldometer_row_scheme input_file"
  processed_day_wise_csv :: "'a day_wise_row_scheme csv option"
  processed_country_wise_csv :: "country_day csv option"
  processed_worldometer_csv :: "country_snapshot csv option"
  latest_covid_data_csv :: "latest_row csv option"

text \<open>The last code cell: the four \<^verbatim>\<open>to_csv\<close> calls, in the notebook's order.\<close>

definition save ::
  "'a day_wise_row_scheme list \<Rightarrow> country_day list \<Rightarrow> country_snapshot list \<Rightarrow> latest_row list \<Rightarrow>
   ('a, 'b, 'c, 'd) files \<Rightarrow> ('a, 'b, 'c, 'd) files" where
  "save day_wise_df full_grouped_relevant_df worldometer_relevant_df latest fs =
     (let fs1 = fs\<lparr>processed_day_wise_csv := Some (to_csv day_wise_df False)\<rparr>;
          fs2 = fs1\<lparr>processed_country_wise_csv := Some (to_csv full_grouped_relevant_df False)\<rparr>;
          fs3 = fs2\<lparr>processed_worldometer_csv := Some (to_csv worldometer_relevant_df False)\<rparr>
      in fs3\<lparr>latest_covid_data_csv := Some (to_csv latest False)\<rparr>)"

text \<open>
  A run of the notebook, cell after cell; the first exception ends it. The result is
  the exception, if any, and the files as the run leaves them. The chart cells only
  display, and are left out.
\<close>

definition run :: "(string \<Rightarrow> int option) \<Rightarrow> ('a, 'b, 'c, 'd) files \<Rightarrow> error option \<times> ('a, 'b, 'c, 'd) files" where
  "run parse fs =
     (case read_csv ''attached_assets/day_wise.csv'' (day_wise_csv fs) of
        Inl e \<Rightarrow> (Some e, fs)
      | Inr day_wise_df \<Rightarrow>
     (case read_csv ''attached_assets/full_grouped.csv'' (full_grouped_csv fs) of
        Inl e \<Rightarrow> (Some e, fs)
      | Inr full_grouped_df \<Rightarrow>
     (case read_csv ''attached_assets/usa_county_wise.csv'' (usa_county_wise_csv fs) of
        Inl e \<Rightarrow> (Some e, fs)
      | Inr usa_county_wise_df \<Rightarrow>
     (case read_csv ''attached_assets/worldometer_data.csv'' (worldometer_data_csv fs) of
        Inl e \<Rightarrow> (Some e, fs)
      | Inr worldometer_df \<Rightarrow>
     (case day_wise_dates parse day_wise_df of
        Inl e \<Rightarrow> (Some e, fs)
      | Inr day_wise_df' \<Rightarrow>
     (case full_grouped_dates parse full_grouped_df of
        Inl e \<Rightarrow> (Some e, fs)
      | Inr full_grouped_df' \<Rightarrow>
          (None,
           save day_wise_df' (full_grouped_relevant full_grouped_df')
             (worldometer_relevant worldometer_df)
             (with_mortality_rate (latest_data (full_grouped_relevant full_grouped_df')))
             fs)))))))"

section \<open>Properties\<close>

subsection \<open>Date conversion\<close>

lemma to_datetime_length: "to_datetime parse cs = Inr ds \<Longrightarrow> length ds = length cs"
  by (induction cs arbitrary: ds) (auto split: sum.splits)

lemma to_datetime_nth:
  "to_datetime parse cs = Inr ds \<Longrightarrow> i < length cs \<Longrightarrow> to_datetime_cell parse (cs ! i) = Inr (ds ! i)"
proof (induction cs arbitrary: ds i)
  case Nil
  then show ?case by simp
next
  case (Cons c cs)
  then show ?case
    by (cases i) (auto split: sum.splits)
qed

subsection \<open>The latest snapshot\<close>

lemma timestamps_set: "t \<in> set (timestamps cs) \<longleftrightarrow> Timestamp t \<in> set cs"
  by (induction cs rule: timestamps.induct) auto

lemma column_max_NaT: "column_max cs = NaT \<longleftrightarrow> (\<forall>t. Timestamp t \<notin> set cs)"
  by (auto simp: column_max_def timestamps_set[symmetric] split: list.splits)

lemma column_max_not_Text: "column_max cs \<noteq> Text s"
  by (simp add: column_max_def split: list.splits)

lemma column_max_Timestamp:
  "column_max cs = Timestamp m \<longleftrightarrow>
     Timestamp m \<in> set cs \<and> (\<forall>t. Timestamp t \<in> set cs \<longrightarrow> t \<le> m)"
proof (cases "timestamps cs")
  case Nil
  then have "\<forall>t. Timestamp t \<notin> set cs"
    using timestamps_set[of _ cs] by simp
  with Nil show ?thesis by (auto simp: column_max_def)
next
  case (Cons t ts)
  have fin: "finite (set (t # ts))" and ne: "set (t # ts) \<noteq> {}" by simp_all
  have "fold max ts t = Max (set (t # ts))"
    by (rule Max.set_eq_fold[symmetric])
  then have mx: "column_max cs = Timestamp (Max (set (t # ts)))"
    using Cons by (simp add: column_max_def)
  have mem: "\<And>u. Timestamp u \<in> set cs \<longleftrightarrow> u \<in> set (t # ts)"
    using timestamps_set[of _ cs] Cons by simp
  show ?thesis
  proof
    assume "column_max cs = Timestamp m"
    then have m: "m = Max (set (t # ts))" using mx by simp
    then have "m \<in> set (t # ts)" using Max_in[OF fin ne] by simp
    moreover have "\<forall>u. u \<in> set (t # ts) \<longrightarrow> u \<le> m" using m Max_ge[OF fin] by blast
    ultimately show "Timestamp m \<in> set cs \<and> (\<forall>t. Timestamp t \<in> set cs \<longrightarrow> t \<le> m)"
      using mem by blast
  next
    assume a: "Timestamp m \<in> set cs \<and> (\<forall>t. Timestamp t \<in> set cs \<longrightarrow> t \<le> m)"
    then have "m \<in> set (t # ts)" and "\<forall>u\<in>set (t # ts). u \<le> m" using mem by blast+
    then have "Max (set (t # ts)) = m" by (intro Max_eqI) auto
    then show "column_max cs = Timestamp m" using mx by simp
  qed
qed

lemma date_eq_Timestamp: "date_eq c (Timestamp m) \<longleftrightarrow> c = Timestamp m"
  by (cases c) auto

lemma date_eq_NaT: "\<not> date_eq c NaT"
  by (cases c) auto

text \<open>
  Claim C1. The latest snapshot holds exactly the rows of the cleaned table whose date
  is the greatest date of the table, in the table's order: when \<open>m\<close> is a timestamp of
  the \<open>Date\<close> column and no timestamp of the column is later, \<open>latest_data\<close> is the
  table filtered by \<open>Date = m\<close>. Such an \<open>m\<close> exists as soon as the column holds a
  timestamp; when it holds none, there is no greatest date and the snapshot is empty.
\<close>

theorem latest_data_rows:
  "(Timestamp m \<in> set (map country_day.Date rel) \<and>
    (\<forall>r\<in>set rel. \<forall>t. country_day.Date r = Timestamp t \<longrightarrow> t \<le> m) \<longrightarrow>
      latest_data rel = filter (\<lambda>r. country_day.Date r = Timestamp m) rel) \<and>
   ((\<exists>t. Timestamp t \<in> set (map country_day.Date rel)) \<longrightarrow>
      (\<exists>m'. Timestamp m' \<in> set (map country_day.Date rel) \<and>
           (\<forall>r\<in>set rel. \<forall>t. country_day.Date r = Timestamp t \<longrightarrow> t \<le> m'))) \<and>
   ((\<forall>t. Timestamp t \<notin> set (map country_day.Date rel)) \<longrightarrow> latest_data rel = [])"
proof (intro conjI impI)
  assume a: "Timestamp m \<in> set (map country_day.Date rel) \<and>
         (\<forall>r\<in>set rel. \<forall>t. country_day.Date r = Timestamp t \<longrightarrow> t \<le> m)"
  then have "column_max (map country_day.Date rel) = Timestamp m"
    unfolding column_max_Timestamp by auto
  then show "latest_data rel = filter (\<lambda>r. country_day.Date r = Timestamp m) rel"
    by (simp add: latest_data_def latest_date_def date_eq_Timestamp)
next
  assume "\<exists>t. Timestamp t \<in> set (map country_day.Date rel)"
  then have "column_max (map country_day.Date rel) \<noteq> NaT"
    by (simp add: column_max_NaT)
  then obtain m' where "column_max (map country_day.Date rel) = Timestamp m'"
    using column_max_not_Text by (cases "column_max (map country_day.Date rel)") auto
  then have "Timestamp m' \<in> set (map country_day.Date rel) \<and>
           (\<forall>t. Timestamp t \<in> set (map country_day.Date rel) \<longrightarrow> t \<le> m')"
    unfolding column_max_Timestamp .
  then have "Timestamp m' \<in> set (map country_day.Date rel) \<and>
           (\<forall>r\<in>set rel. \<forall>t. country_day.Date r = Timestamp t \<longrightarrow> t \<le> m')"
    by (metis image_eqI list.set_map)
  then show "\<exists>m'. Timestamp m' \<in> set (map country_day.Date rel) \<and>
           (\<forall>r\<in>set rel. \<forall>t. country_day.Date r = Timestamp t \<longrightarrow> t \<le> m')" ..
next
  assume "\<forall>t. Timestamp t \<notin> set (map country_day.Date rel)"
  then have "column_max (map country_day.Date rel) = NaT"
    by (simp add: column_max_NaT)
  then show "latest_data rel = []"
    by (simp add: latest_data_def latest_date_def date_eq_NaT)
qed

text \<open>
  Three rows, one of an earlier day and two of the latest day: the snapshot is the two
  rows of the latest day. One row without a date: the snapshot is empty.
\<close>

theorem latest_data_rows_witness:
  "Timestamp 18470 \<in> set (map country_day.Date
     [\<lparr>country_day.Date = Timestamp 18469, Country_Region = ''China'', Confirmed = 86990,
        Deaths = 4656, Recovered = 81212, Active = 1122, WHO_Region = ''Western Pacific''\<rparr>,
      \<lparr>country_day.Date = Timestamp 18470, Country_Region = ''China'', Confirmed = 87213,
        Deaths = 4658, Recovered = 81298, Active = 1257, WHO_Region = ''Western Pacific''\<rparr>,
      \<lparr>country_day.Date = Timestamp 18470, Country_Region = ''Spain'', Confirmed = 272421,
        Deaths = 28432, Recovered = 150376, Active = 93613, WHO_Region = ''Europe''\<rparr>]) \<and>
   latest_data
     [\<lparr>country_day.Date = Timestamp 18469, Country_Region = ''China'', Confirmed = 86990,
        Deaths = 4656, Recovered = 81212, Active = 1122, WHO_Region = ''Western Pacific''\<rparr>,
      \<lparr>country_day.Date = Timestamp 18470, Country_Region = ''China'', Confirmed = 87213,
        Deaths = 4658, Recovered = 81298, Active = 1257, WHO_Region = ''Western Pacific''\<rparr>,
      \<lparr>country_day.Date = Timestamp 18470, Country_Region = ''Spain'', Confirmed = 272421,
        Deaths = 28432, Recovered = 150376, Active = 93613, WHO_Region = ''Europe''\<rparr>] =
     [\<lparr>country_day.Date = Timestamp 18470, Country_Region = ''China'', Confirmed = 87213,
        Deaths = 4658, Recovered = 81298, Active = 1257, WHO_Region = ''Western Pacific''\<rparr>,
      \<lparr>country_day.Date = Timestamp 18470, Country_Region = ''Spain'', Confirmed = 272421,
        Deaths = 28432, Recovered = 150376, Active = 93613, WHO_Region = ''Europe''\<rparr>] \<and>
   latest_data
     [\<lparr>country_day.Date = NaT, Country_Region = ''China'', Confirmed = 86990,
        Deaths = 4656, Recovered = 81212, Active = 1122, WHO_Region = ''Western Pacific''\<rparr>] = []"
proof -
  let ?rel = "[\<lparr>country_day.Date = Timestamp 18469, Country_Region = ''China'', Confirmed = 86990,
        Deaths = 4656, Recovered = 81212, Active = 1122, WHO_Region = ''Western Pacific''\<rparr>,
      \<lparr>country_day.Date = Timestamp 18470, Country_Region = ''China'', Confirmed = 87213,
        Deaths = 4658, Recovered = 81298, Active = 1257, WHO_Region = ''Western Pacific''\<rparr>,
      \<lparr>country_day.Date = Timestamp 18470, Country_Region = ''Spain'', Confirmed = 272421,
        Deaths = 28432, Recovered = 150376, Active = 93613, WHO_Region = ''Europe''\<rparr>]"
  let ?undated = "[\<lparr>country_day.Date = NaT, Country_Region = ''China'', Confirmed = 86990,
        Deaths = 4656, Recovered = 81212, Active = 1122, WHO_Region = ''Western Pacific''\<rparr>]"
  have present: "Timestamp 18470 \<in> set (map country_day.Date ?rel)" by simp
  have greatest: "\<forall>r\<in>set ?rel. \<forall>t. country_day.Date r = Timestamp t \<longrightarrow> t \<le> 18470" by simp
  from latest_data_rows[of 18470 ?rel] present greatest
  have "latest_data ?rel = filter (\<lambda>r. country_day.Date r = Timestamp 18470) ?rel"
    by blast
  then have 1: "latest_data ?rel =
     [\<lparr>country_day.Date = Timestamp 18470, Country_Region = ''China'', Confirmed = 87213,
        Deaths = 4658, Recovered = 81298, Active = 1257, WHO_Region = ''Western Pacific''\<rparr>,
      \<lparr>country_day.Date = Timestamp 18470, Country_Region = ''Spain'', Confirmed = 272421,
        Deaths = 28432, Recovered = 150376, Active = 93613, WHO_Region = ''Europe''\<rparr>]"
    by simp
  have "\<forall>t. Timestamp t \<notin> set (map country_day.Date ?undated)" by simp
  with latest_data_rows[of 0 ?undated] have 2: "latest_data ?undated = []"
    by blast
  from present 1 2 show ?thesis by blast
qed

subsection \<open>The threshold of the cleaning\<close>

lemma full_grouped_dates_Confirmed:
  assumes "full_grouped_dates parse raw = Inr df"
  shows "map country_day.Confirmed df = map country_day.Confirmed raw"
proof -
  from assms obtain ds where ds: "to_datetime parse (map country_day.Date raw) = Inr ds"
    and df: "df = map (\<lambda>(r, d). r\<lparr>country_day.Date := d\<rparr>) (zip raw ds)"
    by (auto simp: full_grouped_dates_def split: sum.splits)
  have len: "length ds = length raw"
    using to_datetime_length[OF ds] by simp
  show ?thesis
    unfolding df using len
    by (intro nth_equalityI) simp_all
qed

lemma Confirmed_truncate [simp]:
  "country_day.Confirmed (country_day.truncate r) = country_day.Confirmed r"
  by (simp add: country_day.truncate_def)

lemma Confirmed_rename [simp]:
  "country_snapshot.Confirmed (rename_columns (worldometer_row.truncate r)) = TotalCases r"
  by (simp add: rename_columns_def worldometer_row.truncate_def)

text \<open>
  Claim C2. Every row of the cleaned country-day table has \<open>Confirmed\<close> at least 15, and
  every row of the cleaned worldometer table has a \<open>Confirmed\<close> cell (the file's
  \<open>TotalCases\<close>) that is present and at least 15. Each cleaned table is the projected
  (and renamed) input with exactly the rows under the threshold left out: nothing else
  is removed, and the filter raises nothing. Date conversion leaves the \<open>Confirmed\<close>
  column as loaded. The two-row scenario keeps the one row of China.
\<close>

theorem cleaning_threshold:
  "(\<forall>r\<in>set (full_grouped_relevant fg). 15 \<le> country_day.Confirmed r) \<and>
   full_grouped_relevant fg =
     filter (\<lambda>r. 15 \<le> country_day.Confirmed r) (map country_day.truncate fg) \<and>
   (full_grouped_dates parse raw = Inr fg \<longrightarrow>
      map country_day.Confirmed (full_grouped_relevant fg) =
        filter (\<lambda>c. 15 \<le> c) (map country_day.Confirmed raw)) \<and>
   (\<forall>r\<in>set (worldometer_relevant wm). \<exists>n. country_snapshot.Confirmed r = Some n \<and> 15 \<le> n) \<and>
   worldometer_relevant wm =
     filter (\<lambda>r. ge_15 (country_snapshot.Confirmed r))
       (map (\<lambda>r. rename_columns (worldometer_row.truncate r)) wm) \<and>
   (parse ''2020-01-22'' = Some t \<longrightarrow>
      (\<exists>df. full_grouped_dates parse
         [\<lparr>country_day.Date = Text ''2020-01-22'', Country_Region = ''China'', Confirmed = 20,
            Deaths = 1, Recovered = 0, Active = 19, WHO_Region = ''Western Pacific''\<rparr>,
          \<lparr>country_day.Date = Text ''2020-01-22'', Country_Region = ''US'', Confirmed = 10,
            Deaths = 0, Recovered = 0, Active = 10, WHO_Region = ''Americas''\<rparr>] = Inr df \<and>
         full_grouped_relevant df =
           [\<lparr>country_day.Date = Timestamp t, Country_Region = ''China'', Confirmed = 20,
              Deaths = 1, Recovered = 0, Active = 19, WHO_Region = ''Western Pacific''\<rparr>]))"
proof (intro conjI impI)
  show "\<forall>r\<in>set (full_grouped_relevant fg). 15 \<le> country_day.Confirmed r"
    by (auto simp: full_grouped_relevant_def full_grouped_filtered_def)
  show fg: "full_grouped_relevant fg =
     filter (\<lambda>r. 15 \<le> country_day.Confirmed r) (map country_day.truncate fg)"
    by (simp add: full_grouped_relevant_def full_grouped_filtered_def filter_map comp_def)
  show wm: "worldometer_relevant wm =
     filter (\<lambda>r. ge_15 (country_snapshot.Confirmed r))
       (map (\<lambda>r. rename_columns (worldometer_row.truncate r)) wm)"
    by (simp add: worldometer_relevant_def worldometer_filtered_def filter_map comp_def)
  show "\<forall>r\<in>set (worldometer_relevant wm). \<exists>n. country_snapshot.Confirmed r = Some n \<and> 15 \<le> n"
  proof
    fix r assume "r \<in> set (worldometer_relevant wm)"
    then have "ge_15 (country_snapshot.Confirmed r)"
      unfolding wm by simp
    then show "\<exists>n. country_snapshot.Confirmed r = Some n \<and> 15 \<le> n"
      by (cases "country_snapshot.Confirmed r") auto
  qed
next
  assume "full_grouped_dates parse raw = Inr fg"
  then have "map country_day.Confirmed fg = map country_day.Confirmed raw"
    by (rule full_grouped_dates_Confirmed)
  then have "filter (\<lambda>c. 15 \<le> c) (map country_day.Confirmed fg) =
        filter (\<lambda>c. 15 \<le> c) (map country_day.Confirmed raw)"
    by simp
  moreover have "map country_day.Confirmed (full_grouped_relevant fg) =
        filter (\<lambda>c. 15 \<le> c) (map country_day.Confirmed fg)"
    by (simp add: full_grouped_relevant_def full_grouped_filtered_def filter_map comp_def)
  ultimately show "map country_day.Confirmed (full_grouped_relevant fg) =
        filter (\<lambda>c. 15 \<le> c) (map country_day.Confirmed raw)"
    by simp
next
  assume "parse ''2020-01-22'' = Some t"
  then show "\<exists>df. full_grouped_dates parse
         [\<lparr>country_day.Date = Text ''2020-01-22'', Country_Region = ''China'', Confirmed = 20,
            Deaths = 1, Recovered = 0, Active = 19, WHO_Region = ''Western Pacific''\<rparr>,
          \<lparr>country_day.Date = Text ''2020-01-22'', Country_Region = ''US'', Confirmed = 10,
            Deaths = 0, Recovered = 0, Active = 10, WHO_Region = ''Americas''\<rparr>] = Inr df \<and>
         full_grouped_relevant df =
           [\<lparr>country_day.Date = Timestamp t, Country_Region = ''China'', Confirmed = 20,
              Deaths = 1, Recovered = 0, Active = 19, WHO_Region = ''Western Pacific''\<rparr>]"
    by (simp add: full_grouped_dates_def full_grouped_relevant_def full_grouped_filtered_def
        country_day.truncate_def)
qed

text \<open>
  The scenario's two rows with a parser that knows its date text, and three worldometer
  rows (100 cases, 3 cases, a missing cell).
\<close>

theorem cleaning_threshold_witness:
  "[''2020-01-22'' \<mapsto> 18283] ''2020-01-22'' = Some (18283::int) \<and>
   full_grouped_dates [''2020-01-22'' \<mapsto> 18283]
     [\<lparr>country_day.Date = Text ''2020-01-22'', Country_Region = ''China'', Confirmed = 20,
        Deaths = 1, Recovered = 0, Active = 19, WHO_Region = ''Western Pacific''\<rparr>,
      \<lparr>country_day.Date = Text ''2020-01-22'', Country_Region = ''US'', Confirmed = 10,
        Deaths = 0, Recovered = 0, Active = 10, WHO_Region = ''Americas''\<rparr>] =
     Inr [\<lparr>country_day.Date = Timestamp 18283, Country_Region = ''China'', Confirmed = 20,
        Deaths = 1, Recovered = 0, Active = 19, WHO_Region = ''Western Pacific''\<rparr>,
      \<lparr>country_day.Date = Timestamp 18283, Country_Region = ''US'', Confirmed = 10,
        Deaths = 0, Recovered = 0, Active = 10, WHO_Region = ''Americas''\<rparr>] \<and>
   map country_day.Confirmed (full_grouped_relevant
     [\<lparr>country_day.Date = Timestamp 18283, Country_Region = ''China'', Confirmed = 20,
        Deaths = 1, Recovered = 0, Active = 19, WHO_Region = ''Western Pacific''\<rparr>,
      \<lparr>country_day.Date = Timestamp 18283, Country_Region = ''US'', Confirmed = 10,
        Deaths = 0, Recovered = 0, Active = 10, WHO_Region = ''Americas''\<rparr>]) = [20] \<and>
   map country_snapshot.Confirmed (worldometer_relevant
     [\<lparr>worldometer_row.Country_Region = ''X'', Continent = Some ''Asia'', TotalCases = Some 100,
        TotalDeaths = Some 5, TotalRecovered = Some 90, ActiveCases = Some 5,
        WHO_Region = None, Population = Some 1000000\<rparr>,
      \<lparr>worldometer_row.Country_Region = ''Y'', Continent = Some ''Africa'', TotalCases = Some 3,
        TotalDeaths = None, TotalRecovered = Some 3, ActiveCases = Some 0,
        WHO_Region = Some ''Africa'', Population = Some 5000\<rparr>,
      \<lparr>worldometer_row.Country_Region = ''Z'', Continent = None, TotalCases = None,
        TotalDeaths = None, TotalRecovered = None, ActiveCases = None,
        WHO_Region = None, Population = None\<rparr>]) = [Some 100] \<and>
   full_grouped_relevant
     [\<lparr>country_day.Date = Timestamp 18283, Country_Region = ''China'', Confirmed = 20,
        Deaths = 1, Recovered = 0, Active = 19, WHO_Region = ''Western Pacific''\<rparr>,
      \<lparr>country_day.Date = Timestamp 18283, Country_Region = ''US'', Confirmed = 10,
        Deaths = 0, Recovered = 0, Active = 10, WHO_Region = ''Americas''\<rparr>] =
     [\<lparr>country_day.Date = Timestamp 18283, Country_Region = ''China'', Confirmed = 20,
        Deaths = 1, Recovered = 0, Active = 19, WHO_Region = ''Western Pacific''\<rparr>]"
proof -
  let ?parse = "[''2020-01-22'' \<mapsto> (18283::int)]"
  let ?raw = "[\<lparr>country_day.Date = Text ''2020-01-22'', Country_Region = ''China'', Confirmed = 20,
        Deaths = 1, Recovered = 0, Active = 19, WHO_Region = ''Western Pacific''\<rparr>,
      \<lparr>country_day.Date = Text ''2020-01-22'', Country_Region = ''US'', Confirmed = 10,
        Deaths = 0, Recovered = 0, Active = 10, WHO_Region = ''Americas''\<rparr>]"
  let ?fg = "[\<lparr>country_day.Date = Timestamp 18283, Country_Region = ''China'', Confirmed = 20,
        Deaths = 1, Recovered = 0, Active = 19, WHO_Region = ''Western Pacific''\<rparr>,
      \<lparr>country_day.Date = Timestamp 18283, Country_Region = ''US'', Confirmed = 10,
        Deaths = 0, Recovered = 0, Active = 10, WHO_Region = ''Americas''\<rparr>]"
  let ?wm = "[\<lparr>worldometer_row.Country_Region = ''X'', Continent = Some ''Asia'', TotalCases = Some 100,
        TotalDeaths = Some 5, TotalRecovered = Some 90, ActiveCases = Some 5,
        WHO_Region = None, Population = Some 1000000\<rparr>,
      \<lparr>worldometer_row.Country_Region = ''Y'', Continent = Some ''Africa'', TotalCases = Some 3,
        TotalDeaths = None, TotalRecovered = Some 3, ActiveCases = Some 0,
        WHO_Region = Some ''Africa'', Population = Some 5000\<rparr>,
      \<lparr>worldometer_row.Country_Region = ''Z'', Continent = None, TotalCases = None,
        TotalDeaths = None, TotalRecovered = None, ActiveCases = None,
        WHO_Region = None, Population = None\<rparr>]"
  have p: "?parse ''2020-01-22'' = Some 18283" by simp
  have d: "full_grouped_dates ?parse ?raw = Inr ?fg"
    by (simp add: full_grouped_dates_def)
  note c = cleaning_threshold[of ?fg ?parse ?raw ?wm 18283]
  from c d have "map country_day.Confirmed (full_grouped_relevant ?fg) =
      filter (\<lambda>c. 15 \<le> c) (map country_day.Confirmed ?raw)"
    by blast
  then have 1: "map country_day.Confirmed (full_grouped_relevant ?fg) = [20]" by simp
  from c have "worldometer_relevant ?wm =
     filter (\<lambda>r. ge_15 (country_snapshot.Confirmed r))
       (map (\<lambda>r. rename_columns (worldometer_row.truncate r)) ?wm)"
    by blast
  then have 2: "map country_snapshot.Confirmed (worldometer_relevant ?wm) = [Some 100]"
    by (simp add: rename_columns_def worldometer_row.truncate_def)
  from c p obtain df where "full_grouped_dates ?parse ?raw = Inr df"
    and "full_grouped_relevant df =
      [\<lparr>country_day.Date = Timestamp 18283, Country_Region = ''China'', Confirmed = 20,
         Deaths = 1, Recovered = 0, Active = 19, WHO_Region = ''Western Pacific''\<rparr>]"
    by blast
  with d have 3: "full_grouped_relevant ?fg =
      [\<lparr>country_day.Date = Timestamp 18283, Country_Region = ''China'', Confirmed = 20,
         Deaths = 1, Recovered = 0, Active = 19, WHO_Region = ''Western Pacific''\<rparr>]"
    by simp
  from p d 1 2 3 show ?thesis by blast
qed

subsection \<open>Renaming and projection of the worldometer table\<close>

text \<open>
  Claim C9. Row by row, the cleaned worldometer table holds the cells of the retained
  input rows, unchanged, under the names \<open>Country_Region\<close>, \<open>Continent\<close>, \<open>Confirmed\<close>
  (the file's \<open>TotalCases\<close>), \<open>Deaths\<close> (\<open>TotalDeaths\<close>), \<open>Recovered\<close>
  (\<open>TotalRecovered\<close>), \<open>Active\<close> (\<open>ActiveCases\<close>), \<open>WHO_Region\<close> and \<open>Population\<close>, and
  holds no other column. The scenario row, whatever its continent, its region and its
  other columns, becomes the row with 100, 5, 90, 5 and 1000000.
\<close>

theorem worldometer_rename_projection:
  "list_all2
     (\<lambda>r c. country_snapshot.Country_Region c = worldometer_row.Country_Region r \<and>
            country_snapshot.Continent c = worldometer_row.Continent r \<and>
            country_snapshot.Confirmed c = TotalCases r \<and>
            country_snapshot.Deaths c = TotalDeaths r \<and>
            country_snapshot.Recovered c = TotalRecovered r \<and>
            country_snapshot.Active c = ActiveCases r \<and>
            country_snapshot.WHO_Region c = worldometer_row.WHO_Region r \<and>
            country_snapshot.Population c = worldometer_row.Population r)
     (worldometer_filtered wm) (worldometer_relevant wm) \<and>
   worldometer_relevant
     [\<lparr>worldometer_row.Country_Region = ''X'', Continent = continent, TotalCases = Some 100,
        TotalDeaths = Some 5, TotalRecovered = Some 90, ActiveCases = Some 5,
        WHO_Region = region, Population = Some 1000000, \<dots> = other\<rparr>] =
     [\<lparr>country_snapshot.Country_Region = ''X'', Continent = continent, Confirmed = Some 100,
        Deaths = Some 5, Recovered = Some 90, Active = Some 5,
        WHO_Region = region, Population = Some 1000000\<rparr>]"
proof
  show "list_all2
     (\<lambda>r c. country_snapshot.Country_Region c = worldometer_row.Country_Region r \<and>
            country_snapshot.Continent c = worldometer_row.Continent r \<and>
            country_snapshot.Confirmed c = TotalCases r \<and>
            country_snapshot.Deaths c = TotalDeaths r \<and>
            country_snapshot.Recovered c = TotalRecovered r \<and>
            country_snapshot.Active c = ActiveCases r \<and>
            country_snapshot.WHO_Region c = worldometer_row.WHO_Region r \<and>
            country_snapshot.Population c = worldometer_row.Population r)
     (worldometer_filtered wm) (worldometer_relevant wm)"
    unfolding worldometer_relevant_def list_all2_map2
    by (rule list_all2_refl) (simp add: rename_columns_def worldometer_row.truncate_def)
  show "worldometer_relevant
     [\<lparr>worldometer_row.Country_Region = ''X'', Continent = continent, TotalCases = Some 100,
        TotalDeaths = Some 5, TotalRecovered = Some 90, ActiveCases = Some 5,
        WHO_Region = region, Population = Some 1000000, \<dots> = other\<rparr>] =
     [\<lparr>country_snapshot.Country_Region = ''X'', Continent = continent, Confirmed = Some 100,
        Deaths = Some 5, Recovered = Some 90, Active = Some 5,
        WHO_Region = region, Population = Some 1000000\<rparr>]"
    by (simp add: worldometer_relevant_def worldometer_filtered_def rename_columns_def
        worldometer_row.truncate_def)
qed

text \<open>The scenario row with a continent, no region and no further column.\<close>

theorem worldometer_rename_projection_witness:
  "worldometer_relevant
     [\<lparr>worldometer_row.Country_Region = ''X'', Continent = Some ''Asia'', TotalCases = Some 100,
        TotalDeaths = Some 5, TotalRecovered = Some 90, ActiveCases = Some 5,
        WHO_Region = None, Population = Some 1000000\<rparr>] =
     [\<lparr>country_snapshot.Country_Region = ''X'', Continent = Some ''Asia'', Confirmed = Some 100,
        Deaths = Some 5, Recovered = Some 90, Active = Some 5,
        WHO_Region = None, Population = Some 1000000\<rparr>]"
  using worldometer_rename_projection[of "[]::worldometer_row list" "Some ''Asia''" None "()"]
  by (rule conjunct2)

subsection \<open>A run without one of its inputs\<close>

text \<open>
  Claim C8. When one of the four input files is missing or does not read as a table,
  the run ends in the load cell, with the \<^verbatim>\<open>read_csv\<close> error of one of the four input
  paths, and leaves every file as it found it: none of the four output files is
  written.
\<close>

theorem missing_input_aborts:
  assumes "\<not> readable (day_wise_csv fs) \<or> \<not> readable (full_grouped_csv fs) \<or>
           \<not> readable (usa_county_wise_csv fs) \<or> \<not> readable (worldometer_data_csv fs)"
  shows "\<exists>path. (run parse fs = (Some (FileNotFoundError path), fs) \<or>
                 run parse fs = (Some (ParserError path), fs)) \<and>
                path \<in> {''attached_assets/day_wise.csv'', ''attached_assets/full_grouped.csv'',
                        ''attached_assets/usa_county_wise.csv'',
                        ''attached_assets/worldometer_data.csv''}"
proof -
  have r: "\<And>p f. \<not> readable f \<Longrightarrow>
      read_csv p f = Inl (FileNotFoundError p) \<or> read_csv p f = Inl (ParserError p)"
    subgoal for p f by (cases f) (simp_all add: read_csv_def)
    done
  have t: "\<And>p f. readable f \<Longrightarrow> \<exists>df. read_csv p f = Inr df"
    subgoal for p f by (cases f) (simp_all add: read_csv_def)
    done
  show ?thesis
  proof (cases "readable (day_wise_csv fs)")
    case False
    from r[OF this, of "''attached_assets/day_wise.csv''"] show ?thesis
      by (auto simp: run_def)
  next
    case dw: True
    then obtain a where a: "read_csv ''attached_assets/day_wise.csv'' (day_wise_csv fs) = Inr a"
      using t by blast
    show ?thesis
    proof (cases "readable (full_grouped_csv fs)")
      case False
      from r[OF this, of "''attached_assets/full_grouped.csv''"] a show ?thesis
        by (auto simp: run_def)
    next
      case fg: True
      then obtain b where b: "read_csv ''attached_assets/full_grouped.csv'' (full_grouped_csv fs) = Inr b"
        using t by blast
      show ?thesis
      proof (cases "readable (usa_county_wise_csv fs)")
        case False
        from r[OF this, of "''attached_assets/usa_county_wise.csv''"] a b show ?thesis
          by (auto simp: run_def)
      next
        case us: True
        then obtain c where c: "read_csv ''attached_assets/usa_county_wise.csv'' (usa_county_wise_csv fs) = Inr c"
          using t by blast
        from dw fg us assms have "\<not> readable (worldometer_data_csv fs)" by blast
        from r[OF this, of "''attached_assets/worldometer_data.csv''"] a b c show ?thesis
          by (auto simp: run_def)
      qed
    qed
  qed
qed

text \<open>A run in which \<^verbatim>\<open>full_grouped.csv\<close> is missing and the other three files are there.\<close>

theorem missing_input_aborts_witness:
  "\<not> readable (full_grouped_csv
      \<lparr>day_wise_csv = Table
         [\<lparr>day_wise_row.Date = Text ''2020-01-22'', Confirmed = 555, Deaths = 17,
            Recovered = 28, Active = 510, New_cases = 0, New_deaths = 0, New_recovered = 0\<rparr>],
       full_grouped_csv = (Missing :: country_day input_file),
       usa_county_wise_csv = Table ([] :: unit list),
       worldometer_data_csv = Table ([] :: worldometer_row list),
       processed_day_wise_csv = None, processed_country_wise_csv = None,
       processed_worldometer_csv = None, latest_covid_data_csv = None\<rparr>) \<and>
   fst (run [''2020-01-22'' \<mapsto> 18283]
      \<lparr>day_wise_csv = Table
         [\<lparr>day_wise_row.Date = Text ''2020-01-22'', Confirmed = 555, Deaths = 17,
            Recovered = 28, Active = 510, New_cases = 0, New_deaths = 0, New_recovered = 0\<rparr>],
       full_grouped_csv = (Missing :: country_day input_file),
       usa_county_wise_csv = Table ([] :: unit list),
       worldometer_data_csv = Table ([] :: worldometer_row list),
       processed_day_wise_csv = None, processed_country_wise_csv = None,
       processed_worldometer_csv = None, latest_covid_data_csv = None\<rparr>) \<noteq> None \<and>
   processed_day_wise_csv (snd (run [''2020-01-22'' \<mapsto> 18283]
      \<lparr>day_wise_csv = Table
         [\<lparr>day_wise_row.Date = Text ''2020-01-22'', Confirmed = 555, Deaths = 17,
            Recovered = 28, Active = 510, New_cases = 0, New_deaths = 0, New_recovered = 0\<rparr>],
       full_grouped_csv = (Missing :: country_day input_file),
       usa_county_wise_csv = Table ([] :: unit list),
       worldometer_data_csv = Table ([] :: worldometer_row list),
       processed_day_wise_csv = None, processed_country_wise_csv = None,
       processed_worldometer_csv = None, latest_covid_data_csv = None\<rparr>)) = None"
proof -
  let ?fs = "\<lparr>day_wise_csv = Table
         [\<lparr>day_wise_row.Date = Text ''2020-01-22'', Confirmed = 555, Deaths = 17,
            Recovered = 28, Active = 510, New_cases = 0, New_deaths = 0, New_recovered = 0\<rparr>],
       full_grouped_csv = (Missing :: country_day input_file),
       usa_county_wise_csv = Table ([] :: unit list),
       worldometer_data_csv = Table ([] :: worldometer_row list),
       processed_day_wise_csv = None, processed_country_wise_csv = None,
       processed_worldometer_csv = None, latest_covid_data_csv = None\<rparr>"
  have h: "\<not> readable (full_grouped_csv ?fs)" by simp
  then have "\<not> readable (day_wise_csv ?fs) \<or> \<not> readable (full_grouped_csv ?fs) \<or>
           \<not> readable (usa_county_wise_csv ?fs) \<or> \<not> readable (worldometer_data_csv ?fs)"
    by blast
  from missing_input_aborts[OF this, of "[''2020-01-22'' \<mapsto> 18283]"]
  obtain e where "run [''2020-01-22'' \<mapsto> 18283] ?fs = (Some e, ?fs)"
    by blast
  then have "fst (run [''2020-01-22'' \<mapsto> 18283] ?fs) \<noteq> None"
    and "processed_day_wise_csv (snd (run [''2020-01-22'' \<mapsto> 18283] ?fs)) = None"
    by simp_all
  with h show ?thesis by blast
qed

subsection \<open>The day-wise table as written\<close>

lemma day_wise_dates_rows:
  assumes "day_wise_dates parse df = Inr df'"
  shows "length df' = length df"
    and "i < length df \<Longrightarrow>
           df' ! i = (df ! i)\<lparr>day_wise_row.Date := day_wise_row.Date (df' ! i)\<rparr> \<and>
           to_datetime_cell parse (day_wise_row.Date (df ! i)) = Inr (day_wise_row.Date (df' ! i))"
proof -
  from assms obtain ds where ds: "to_datetime parse (map day_wise_row.Date df) = Inr ds"
    and df': "df' = map (\<lambda>(r, d). r\<lparr>day_wise_row.Date := d\<rparr>) (zip df ds)"
    by (auto simp: day_wise_dates_def split: sum.splits)
  have len: "length ds = length df"
    using to_datetime_length[OF ds] by simp
  show "length df' = length df"
    by (simp add: df' len)
  assume i: "i < length df"
  then have "to_datetime_cell parse (day_wise_row.Date (df ! i)) = Inr (ds ! i)"
    using to_datetime_nth[OF ds, of i] by simp
  moreover have "df' ! i = (df ! i)\<lparr>day_wise_row.Date := ds ! i\<rparr>"
    using i len by (simp add: df')
  ultimately show "df' ! i = (df ! i)\<lparr>day_wise_row.Date := day_wise_row.Date (df' ! i)\<rparr> \<and>
           to_datetime_cell parse (day_wise_row.Date (df ! i)) = Inr (day_wise_row.Date (df' ! i))"
    by simp
qed

lemma to_datetime_cell_Inr:
  "to_datetime_cell parse c = Inr d \<Longrightarrow>
     (case c of Text s \<Rightarrow> \<exists>t. parse s = Some t \<and> d = Timestamp t | c' \<Rightarrow> d = c')"
  by (cases c) (auto split: option.splits)

lemma run_success:
  assumes "run parse fs = (None, fs')"
  obtains dw fg us wm dw' fg' where
    "day_wise_csv fs = Table dw" "full_grouped_csv fs = Table fg"
    "usa_county_wise_csv fs = Table us" "worldometer_data_csv fs = Table wm"
    "day_wise_dates parse dw = Inr dw'" "full_grouped_dates parse fg = Inr fg'"
    "fs' = save dw' (full_grouped_relevant fg') (worldometer_relevant wm)
             (with_mortality_rate (latest_data (full_grouped_relevant fg'))) fs"
  using assms
  by (auto simp: run_def read_csv_def split: sum.splits input_file.splits)

text \<open>
  Claim C7, as amended. After a run that raises nothing, \<^verbatim>\<open>processed_day_wise.csv\<close>
  holds the table loaded from \<^verbatim>\<open>day_wise.csv\<close> with its \<open>Date\<close> column converted: as
  many rows, in the same order, every row equal to the loaded one in every column but
  \<open>Date\<close>, where a text is replaced by the timestamp it parses to (a cell that is no
  text stays). The file has a header line, commas as separators and no index column.
\<close>

theorem processed_day_wise_written:
  assumes "run parse fs = (None, fs')"
  shows "\<exists>df out. day_wise_csv fs = Table df \<and>
           processed_day_wise_csv fs' = Some out \<and>
           header out \<and> sep out = CHR '','' \<and> \<not> index out \<and>
           length (records out) = length df \<and>
           (\<forall>i<length df.
              records out ! i = (df ! i)\<lparr>day_wise_row.Date := day_wise_row.Date (records out ! i)\<rparr> \<and>
              (case day_wise_row.Date (df ! i) of
                 Text s \<Rightarrow> \<exists>t. parse s = Some t \<and> day_wise_row.Date (records out ! i) = Timestamp t
               | c \<Rightarrow> day_wise_row.Date (records out ! i) = c))"
proof -
  from assms obtain dw fg us wm dw' fg' where
    dw: "day_wise_csv fs = Table dw" and "full_grouped_csv fs = Table fg" and
    "usa_county_wise_csv fs = Table us" and "worldometer_data_csv fs = Table wm" and
    dates: "day_wise_dates parse dw = Inr dw'" and "full_grouped_dates parse fg = Inr fg'" and
    fs': "fs' = save dw' (full_grouped_relevant fg') (worldometer_relevant wm)
             (with_mortality_rate (latest_data (full_grouped_relevant fg'))) fs"
    by (rule run_success)
  have out: "processed_day_wise_csv fs' = Some (to_csv dw' False)"
    by (simp add: fs' save_def Let_def)
  have rows: "\<forall>i<length dw.
      dw' ! i = (dw ! i)\<lparr>day_wise_row.Date := day_wise_row.Date (dw' ! i)\<rparr> \<and>
      (case day_wise_row.Date (dw ! i) of
         Text s \<Rightarrow> \<exists>t. parse s = Some t \<and> day_wise_row.Date (dw' ! i) = Timestamp t
       | c \<Rightarrow> day_wise_row.Date (dw' ! i) = c)"
  proof (intro allI impI)
    fix i assume "i < length dw"
    from day_wise_dates_rows(2)[OF dates this]
    have a: "dw' ! i = (dw ! i)\<lparr>day_wise_row.Date := day_wise_row.Date (dw' ! i)\<rparr>"
      and b: "to_datetime_cell parse (day_wise_row.Date (dw ! i)) = Inr (day_wise_row.Date (dw' ! i))"
      by blast+
    from a to_datetime_cell_Inr[OF b]
    show "dw' ! i = (dw ! i)\<lparr>day_wise_row.Date := day_wise_row.Date (dw' ! i)\<rparr> \<and>
      (case day_wise_row.Date (dw ! i) of
         Text s \<Rightarrow> \<exists>t. parse s = Some t \<and> day_wise_row.Date (dw' ! i) = Timestamp t
       | c \<Rightarrow> day_wise_row.Date (dw' ! i) = c)"
      by (rule conjI)
  qed
  have rec: "records (to_csv dw' False) = dw'"
    by (simp add: to_csv_def)
  show ?thesis
  proof (intro exI conjI)
    show "day_wise_csv fs = Table dw" by fact
    show "processed_day_wise_csv fs' = Some (to_csv dw' False)" by fact
    show "header (to_csv dw' False)" by (simp add: to_csv_def)
    show "sep (to_csv dw' False) = CHR '',''" by (simp add: to_csv_def)
    show "\<not> index (to_csv dw' False)" by (simp add: to_csv_def)
    show "length (records (to_csv dw' False)) = length dw"
      unfolding rec by (rule day_wise_dates_rows(1)[OF dates])
    show "\<forall>i<length dw.
      records (to_csv dw' False) ! i =
        (dw ! i)\<lparr>day_wise_row.Date := day_wise_row.Date (records (to_csv dw' False) ! i)\<rparr> \<and>
      (case day_wise_row.Date (dw ! i) of
         Text s \<Rightarrow> \<exists>t. parse s = Some t \<and>
           day_wise_row.Date (records (to_csv dw' False) ! i) = Timestamp t
       | c \<Rightarrow> day_wise_row.Date (records (to_csv dw' False) ! i) = c)"
      unfolding rec by (rule rows)
  qed
qed

text \<open>A run on one day-wise row, two country-day rows and one worldometer row.\<close>

theorem processed_day_wise_written_witness:
  "\<exists>out.
     fst (run [''2020-01-22'' \<mapsto> 18283]
      \<lparr>day_wise_csv = Table
         [\<lparr>day_wise_row.Date = Text ''2020-01-22'', Confirmed = 555, Deaths = 17,
            Recovered = 28, Active = 510, New_cases = 0, New_deaths = 0, New_recovered = 0\<rparr>],
       full_grouped_csv = Table
         [\<lparr>country_day.Date = Text ''2020-01-22'', Country_Region = ''China'', Confirmed = 20,
            Deaths = 1, Recovered = 0, Active = 19, WHO_Region = ''Western Pacific''\<rparr>,
          \<lparr>country_day.Date = Text ''2020-01-22'', Country_Region = ''US'', Confirmed = 10,
            Deaths = 0, Recovered = 0, Active = 10, WHO_Region = ''Americas''\<rparr>],
       usa_county_wise_csv = Table ([] :: unit list),
       worldometer_data_csv = Table
         [\<lparr>worldometer_row.Country_Region = ''X'', Continent = Some ''Asia'',
            TotalCases = Some 100, TotalDeaths = Some 5, TotalRecovered = Some 90,
            ActiveCases = Some 5, WHO_Region = None, Population = Some 1000000\<rparr>],
       processed_day_wise_csv = None, processed_country_wise_csv = None,
       processed_worldometer_csv = None, latest_covid_data_csv = None\<rparr>) = None \<and>
     processed_day_wise_csv (snd (run [''2020-01-22'' \<mapsto> 18283]
      \<lparr>day_wise_csv = Table
         [\<lparr>day_wise_row.Date = Text ''2020-01-22'', Confirmed = 555, Deaths = 17,
            Recovered = 28, Active = 510, New_cases = 0, New_deaths = 0, New_recovered = 0\<rparr>],
       full_grouped_csv = Table
         [\<lparr>country_day.Date = Text ''2020-01-22'', Country_Region = ''China'', Confirmed = 20,
            Deaths = 1, Recovered = 0, Active = 19, WHO_Region = ''Western Pacific''\<rparr>,
          \<lparr>country_day.Date = Text ''2020-01-22'', Country_Region = ''US'', Confirmed = 10,
            Deaths = 0, Recovered = 0, Active = 10, WHO_Region = ''Americas''\<rparr>],
       usa_county_wise_csv = Table ([] :: unit list),
       worldometer_data_csv = Table
         [\<lparr>worldometer_row.Country_Region = ''X'', Continent = Some ''Asia'',
            TotalCases = Some 100, TotalDeaths = Some 5, TotalRecovered = Some 90,
            ActiveCases = Some 5, WHO_Region = None, Population = Some 1000000\<rparr>],
       processed_day_wise_csv = None, processed_country_wise_csv = None,
       processed_worldometer_csv = None, latest_covid_data_csv = None\<rparr>)) = Some out \<and>
     header out \<and> \<not> index out \<and> length (records out) = 1 \<and>
     day_wise_row.Date (records out ! 0) = Timestamp 18283"
proof -
  let ?parse = "[''2020-01-22'' \<mapsto> (18283::int)]"
  let ?dw = "[\<lparr>day_wise_row.Date = Text ''2020-01-22'', Confirmed = 555, Deaths = 17,
            Recovered = 28, Active = 510, New_cases = 0, New_deaths = 0, New_recovered = 0\<rparr>]"
  let ?fs = "\<lparr>day_wise_csv = Table ?dw,
       full_grouped_csv = Table
         [\<lparr>country_day.Date = Text ''2020-01-22'', Country_Region = ''China'', Confirmed = 20,
            Deaths = 1, Recovered = 0, Active = 19, WHO_Region = ''Western Pacific''\<rparr>,
          \<lparr>country_day.Date = Text ''2020-01-22'', Country_Region = ''US'', Confirmed = 10,
            Deaths = 0, Recovered = 0, Active = 10, WHO_Region = ''Americas''\<rparr>],
       usa_county_wise_csv = Table ([] :: unit list),
       worldometer_data_csv = Table
         [\<lparr>worldometer_row.Country_Region = ''X'', Continent = Some ''Asia'',
            TotalCases = Some 100, TotalDeaths = Some 5, TotalRecovered = Some 90,
            ActiveCases = Some 5, WHO_Region = None, Population = Some 1000000\<rparr>],
       processed_day_wise_csv = None, processed_country_wise_csv = None,
       processed_worldometer_csv = None, latest_covid_data_csv = None\<rparr>"
  have ok: "fst (run ?parse ?fs) = None"
    by (simp add: run_def read_csv_def day_wise_dates_def full_grouped_dates_def)
  then have "run ?parse ?fs = (None, snd (run ?parse ?fs))"
    by (simp add: prod_eq_iff)
  from processed_day_wise_written[OF this]
  obtain df out where df: "day_wise_csv ?fs = Table df"
    and out: "processed_day_wise_csv (snd (run ?parse ?fs)) = Some out"
      "header out" "\<not> index out" "length (records out) = length df"
    and rows: "\<forall>i<length df.
       records out ! i = (df ! i)\<lparr>day_wise_row.Date := day_wise_row.Date (records out ! i)\<rparr> \<and>
       (case day_wise_row.Date (df ! i) of
          Text s \<Rightarrow> \<exists>t. ?parse s = Some t \<and> day_wise_row.Date (records out ! i) = Timestamp t
        | c \<Rightarrow> day_wise_row.Date (records out ! i) = c)"
    by blast
  from df have dw: "df = ?dw" by simp
  from rows have "case day_wise_row.Date (df ! 0) of
          Text s \<Rightarrow> \<exists>t. ?parse s = Some t \<and> day_wise_row.Date (records out ! 0) = Timestamp t
        | c \<Rightarrow> day_wise_row.Date (records out ! 0) = c"
    unfolding dw by simp
  then have "day_wise_row.Date (records out ! 0) = Timestamp 18283"
    unfolding dw by simp
  with ok out dw show ?thesis by auto
qed

text \<open>
  Claim C7 as it stands, that the written table is the loaded one with identical
  cells, fails on a run over one day-wise row whose date is written \<open>1/22/20\<close>: the
  loaded \<open>Date\<close> cell is that text, the written one the timestamp it parses to.
\<close>

theorem processed_day_wise_counterexample:
  "fst (run [''1/22/20'' \<mapsto> 18283]
      \<lparr>day_wise_csv = Table
         [\<lparr>day_wise_row.Date = Text ''1/22/20'', Confirmed = 555, Deaths = 17,
            Recovered = 28, Active = 510, New_cases = 0, New_deaths = 0, New_recovered = 0\<rparr>],
       full_grouped_csv = Table ([] :: country_day list),
       usa_county_wise_csv = Table ([] :: unit list),
       worldometer_data_csv = Table ([] :: worldometer_row list),
       processed_day_wise_csv = None, processed_country_wise_csv = None,
       processed_worldometer_csv = None, latest_covid_data_csv = None\<rparr>) = None \<and>
   map_option records (processed_day_wise_csv (snd (run [''1/22/20'' \<mapsto> 18283]
      \<lparr>day_wise_csv = Table
         [\<lparr>day_wise_row.Date = Text ''1/22/20'', Confirmed = 555, Deaths = 17,
            Recovered = 28, Active = 510, New_cases = 0, New_deaths = 0, New_recovered = 0\<rparr>],
       full_grouped_csv = Table ([] :: country_day list),
       usa_county_wise_csv = Table ([] :: unit list),
       worldometer_data_csv = Table ([] :: worldometer_row list),
       processed_day_wise_csv = None, processed_country_wise_csv = None,
       processed_worldometer_csv = None, latest_covid_data_csv = None\<rparr>))) =
     Some [\<lparr>day_wise_row.Date = Timestamp 18283, Confirmed = 555, Deaths = 17,
            Recovered = 28, Active = 510, New_cases = 0, New_deaths = 0, New_recovered = 0\<rparr>] \<and>
   [\<lparr>day_wise_row.Date = Timestamp 18283, Confirmed = 555, Deaths = 17,
      Recovered = 28, Active = 510, New_cases = 0, New_deaths = 0, New_recovered = 0\<rparr>] \<noteq>
   [\<lparr>day_wise_row.Date = Text ''1/22/20'', Confirmed = 555, Deaths = 17,
      Recovered = 28, Active = 510, New_cases = 0, New_deaths = 0, New_recovered = 0\<rparr>]"
  by (simp add: run_def read_csv_def day_wise_dates_def full_grouped_dates_def save_def
      to_csv_def)

subsection \<open>Sums by WHO region\<close>

lemma WHO_Region_new_group [simp]: "region_sums.WHO_Region (new_group r) = country_day.WHO_Region r"
  by (simp add: new_group_def)

lemma WHO_Region_add_to_group [simp]: "region_sums.WHO_Region (add_to_group g r) = region_sums.WHO_Region g"
  by (simp add: add_to_group_def)

lemma group_row_keys:
  "set (map region_sums.WHO_Region (group_row r gs)) =
     insert (country_day.WHO_Region r) (set (map region_sums.WHO_Region gs))"
  by (induction gs) auto

lemma group_row_sorted:
  "sorted_wrt (<) (map region_sums.WHO_Region gs) \<Longrightarrow>
   sorted_wrt (<) (map region_sums.WHO_Region (group_row r gs))"
proof (induction gs)
  case Nil
  then show ?case by simp
next
  case (Cons g gs)
  have keys: "set (map region_sums.WHO_Region (group_row r gs)) =
     insert (country_day.WHO_Region r) (set (map region_sums.WHO_Region gs))"
    by (rule group_row_keys)
  from Cons show ?case
    using keys by (auto simp: not_less less_le)
qed

lemma find_none_sorted:
  "sorted_wrt (<) (map region_sums.WHO_Region (g # gs)) \<Longrightarrow> k < region_sums.WHO_Region g \<Longrightarrow>
   find (\<lambda>g. region_sums.WHO_Region g = k) (g # gs) = None"
  by (auto simp: find_None_iff)

lemma group_row_find:
  "sorted_wrt (<) (map region_sums.WHO_Region gs) \<Longrightarrow>
   find (\<lambda>g. region_sums.WHO_Region g = k) (group_row r gs) =
     (if k = country_day.WHO_Region r
      then Some (case find (\<lambda>g. region_sums.WHO_Region g = k) gs of
                   None \<Rightarrow> new_group r | Some g \<Rightarrow> add_to_group g r)
      else find (\<lambda>g. region_sums.WHO_Region g = k) gs)"
proof (induction gs)
  case Nil
  then show ?case by simp
next
  case (Cons g gs)
  show ?case
  proof (cases "country_day.WHO_Region r = region_sums.WHO_Region g")
    case True
    then show ?thesis by auto
  next
    case ne: False
    show ?thesis
    proof (cases "country_day.WHO_Region r < region_sums.WHO_Region g")
      case True
      with find_none_sorted[OF Cons.prems True] ne show ?thesis
        by auto
    next
      case False
      with ne Cons show ?thesis by auto
    qed
  qed
qed

lemma groupby_sum_snoc: "groupby_sum (df @ [r]) = group_row r (groupby_sum df)"
  by (simp add: groupby_sum_def)

lemma groupby_sum_sorted: "sorted_wrt (<) (map region_sums.WHO_Region (groupby_sum df))"
  by (induction df rule: rev_induct) (simp_all add: groupby_sum_def group_row_sorted)

lemma groupby_sum_keys:
  "set (map region_sums.WHO_Region (groupby_sum df)) = set (map country_day.WHO_Region df)"
proof (induction df rule: rev_induct)
  case Nil
  show ?case by (simp add: groupby_sum_def)
next
  case (snoc r df)
  have "set (map region_sums.WHO_Region (groupby_sum (df @ [r]))) =
      insert (country_day.WHO_Region r) (set (map region_sums.WHO_Region (groupby_sum df)))"
    unfolding groupby_sum_snoc by (rule group_row_keys)
  also have "\<dots> = insert (country_day.WHO_Region r) (set (map country_day.WHO_Region df))"
    unfolding snoc.IH ..
  also have "\<dots> = set (map country_day.WHO_Region (df @ [r]))"
    by simp
  finally show ?case .
qed

lemma region_total_new:
  "country_day.WHO_Region r \<notin> set (map country_day.WHO_Region df) \<Longrightarrow>
   region_total (country_day.WHO_Region r) (df @ [r]) = new_group r"
proof -
  assume "country_day.WHO_Region r \<notin> set (map country_day.WHO_Region df)"
  then have "\<forall>x\<in>set df. country_day.WHO_Region x \<noteq> country_day.WHO_Region r"
    by (metis image_eqI list.set_map)
  then have "filter (\<lambda>x. country_day.WHO_Region x = country_day.WHO_Region r) df = []"
    by (simp add: filter_empty_conv)
  then show ?thesis
    by (simp add: region_total_def new_group_def)
qed

lemma region_total_add:
  "add_to_group (region_total (country_day.WHO_Region r) df) r =
   region_total (country_day.WHO_Region r) (df @ [r])"
  by (simp add: region_total_def add_to_group_def)

lemma region_total_other:
  "k \<noteq> country_day.WHO_Region r \<Longrightarrow> region_total k (df @ [r]) = region_total k df"
  by (simp add: region_total_def)

lemma groupby_sum_find:
  "find (\<lambda>g. region_sums.WHO_Region g = k) (groupby_sum df) =
     (if k \<in> set (map country_day.WHO_Region df) then Some (region_total k df) else None)"
proof (induction df rule: rev_induct)
  case Nil
  then show ?case by (simp add: groupby_sum_def)
next
  case (snoc r df)
  show ?case
  proof (cases "k = country_day.WHO_Region r")
    case True
    show ?thesis
    proof (cases "k \<in> set (map country_day.WHO_Region df)")
      case in_df: True
      with snoc True show ?thesis
        by (simp add: groupby_sum_snoc group_row_find[OF groupby_sum_sorted] region_total_add)
    next
      case False
      with snoc True show ?thesis
        using region_total_new[of r df]
        by (simp add: groupby_sum_snoc group_row_find[OF groupby_sum_sorted])
    qed
  next
    case False
    with snoc show ?thesis
      by (simp add: groupby_sum_snoc group_row_find[OF groupby_sum_sorted] region_total_other)
  qed
qed

lemma find_filter_distinct:
  "distinct (map f gs) \<Longrightarrow> find (\<lambda>g. f g = k) gs = Some g \<Longrightarrow> filter (\<lambda>g. f g = k) gs = [g]"
proof (induction gs)
  case Nil
  then show ?case by simp
next
  case (Cons a gs)
  show ?case
  proof (cases "f a = k")
    case True
    with Cons.prems have "a = g" and "f a \<notin> set (map f gs)" by auto
    with True have "\<forall>x\<in>set gs. f x \<noteq> k"
      by (metis image_eqI list.set_map)
    then have "filter (\<lambda>g. f g = k) gs = []" by (simp add: filter_empty_conv)
    with True \<open>a = g\<close> show ?thesis by simp
  next
    case False
    with Cons show ?thesis by simp
  qed
qed

lemma groupby_sum_filter:
  assumes "k \<in> set (map country_day.WHO_Region df)"
  shows "filter (\<lambda>g. region_sums.WHO_Region g = k) (groupby_sum df) = [region_total k df]"
proof -
  have "distinct (map region_sums.WHO_Region (groupby_sum df))"
    using groupby_sum_sorted[of df] by (simp add: strict_sorted_iff)
  moreover have "find (\<lambda>g. region_sums.WHO_Region g = k) (groupby_sum df) = Some (region_total k df)"
    using assms by (simp add: groupby_sum_find)
  ultimately show ?thesis by (rule find_filter_distinct)
qed

lemma groupby_sum_member:
  assumes "g \<in> set (groupby_sum df)"
  shows "region_sums.WHO_Region g \<in> set (map country_day.WHO_Region df) \<and>
         g = region_total (region_sums.WHO_Region g) df"
proof -
  from assms have k: "region_sums.WHO_Region g \<in> set (map country_day.WHO_Region df)"
    using groupby_sum_keys[of df] by auto
  from assms have "g \<in> set (filter (\<lambda>x. region_sums.WHO_Region x = region_sums.WHO_Region g) (groupby_sum df))"
    by simp
  then have "g = region_total (region_sums.WHO_Region g) df"
    unfolding groupby_sum_filter[OF k] by simp
  with k show ?thesis ..
qed

lemma WHO_Region_extend [simp]:
  "region_sums.WHO_Region (region_sums.extend g m) = region_sums.WHO_Region g"
  by (simp add: region_sums.extend_def)



subsection \<open>The divisors of the mortality rates\<close>

lemma mortality_rate_finite:
  "0 < c \<Longrightarrow> mortality_rate d c = Finite (rat_of_int d / rat_of_int c * 100)"
  by (simp add: mortality_rate_def true_divide_def)

lemma sum_list_ge_15:
  "xs \<noteq> [] \<Longrightarrow> \<forall>x\<in>set xs. (15::int) \<le> f x \<Longrightarrow> 15 \<le> sum_list (map f xs)"
proof (induction xs)
  case Nil
  then show ?case by simp
next
  case (Cons x xs)
  show ?case
  proof (cases "xs = []")
    case True
    with Cons.prems show ?thesis by simp
  next
    case False
    with Cons have "15 \<le> sum_list (map f xs)" by simp
    moreover from Cons.prems have "15 \<le> f x" by simp
    ultimately show ?thesis by simp
  qed
qed

lemma region_total_ge_15:
  assumes "k \<in> set (map country_day.WHO_Region df)"
    and "\<forall>r\<in>set df. 15 \<le> country_day.Confirmed r"
  shows "15 \<le> region_sums.Confirmed (region_total k df)"
proof -
  from assms(1) have "filter (\<lambda>r. country_day.WHO_Region r = k) df \<noteq> []"
    by (auto simp: filter_empty_conv)
  moreover from assms(2)
  have "\<forall>r\<in>set (filter (\<lambda>r. country_day.WHO_Region r = k) df). 15 \<le> country_day.Confirmed r"
    by simp
  ultimately have "15 \<le> (\<Sum>r\<leftarrow>filter (\<lambda>r. country_day.WHO_Region r = k) df. country_day.Confirmed r)"
    by (rule sum_list_ge_15)
  then show ?thesis by (simp add: region_total_def)
qed

lemma latest_data_subset: "set (latest_data rel) \<subseteq> set rel"
  by (auto simp: latest_data_def)

lemma full_grouped_relevant_ge_15:
  "r \<in> set (full_grouped_relevant fg) \<Longrightarrow> 15 \<le> country_day.Confirmed r"
  by (auto simp: full_grouped_relevant_def full_grouped_filtered_def country_day.truncate_def)



subsection \<open>Top-N selections\<close>

lemma mset_insert_desc: "mset (insert_desc key x xs) = add_mset x (mset xs)"
  by (induction xs) auto

lemma mset_stable_sort_desc: "mset (stable_sort_desc key df) = mset df"
  by (induction df) (simp_all add: stable_sort_desc_def mset_insert_desc)

lemma set_insert_desc: "set (insert_desc key x xs) = insert x (set xs)"
  using mset_insert_desc[of key x xs, THEN arg_cong, of set_mset] by simp

lemma sorted_insert_desc:
  "sorted_wrt (\<lambda>a b. key b \<le> key a) xs \<Longrightarrow>
   sorted_wrt (\<lambda>a b. key b \<le> key a) (insert_desc key x xs)"
proof (induction xs)
  case Nil
  then show ?case by simp
next
  case (Cons y ys)
  show ?case
  proof (cases "key y \<le> key x")
    case True
    with Cons.prems show ?thesis by auto
  next
    case False
    then have "key x \<le> key y" by simp
    with False Cons show ?thesis
      by (auto simp: set_insert_desc)
  qed
qed

lemma sorted_stable_sort_desc: "sorted_wrt (\<lambda>a b. key b \<le> key a) (stable_sort_desc key df)"
proof (induction df)
  case Nil
  show ?case by (simp add: stable_sort_desc_def)
next
  case (Cons x df)
  then show ?case
    using sorted_insert_desc[of key "stable_sort_desc key df" x]
    by (simp add: stable_sort_desc_def)
qed

lemma stable_in_sort_values_desc: "stable_sort_desc key df \<in> sort_values_desc key df"
  by (simp add: sort_values_desc_def mset_stable_sort_desc sorted_stable_sort_desc)

lemma sort_values_desc_keys:
  assumes "s \<in> sort_values_desc key df"
  shows "rev (map key s) = sort (map key df)"
proof -
  from assms have m: "mset s = mset df" and srt: "sorted_wrt (\<lambda>a b. key b \<le> key a) s"
    by (simp_all add: sort_values_desc_def)
  have "mset (rev (map key s)) = mset (map key df)"
    using m by (metis mset_map mset_rev)
  moreover have "sorted (rev (map key s))"
    using srt by (simp add: sorted_wrt_rev sorted_wrt_map flip: rev_map)
  ultimately have "sort (map key df) = rev (map key s)"
    by (rule properties_for_sort)
  then show ?thesis by simp
qed

lemma sort_values_desc_same_keys:
  assumes "s \<in> sort_values_desc key df" and "s' \<in> sort_values_desc key df"
  shows "map key s = map key s'"
proof -
  have "rev (map key s) = rev (map key s')"
    using sort_values_desc_keys[OF assms(1)] sort_values_desc_keys[OF assms(2)] by simp
  then show ?thesis by simp
qed

lemma sort_values_desc_unique:
  assumes "s \<in> sort_values_desc key df" and "s' \<in> sort_values_desc key df"
    and "distinct (map key df)"
  shows "s = s'"
proof -
  from assms(1,2) have "set s = set df" and "set s' = set df"
    by (auto simp: sort_values_desc_def dest: mset_eq_setD)
  moreover from assms(3) have "inj_on key (set df)"
    by (simp add: distinct_map)
  ultimately have "inj_on key (set s \<union> set s')" by simp
  with sort_values_desc_same_keys[OF assms(1,2)] show ?thesis
    by (simp add: inj_on_map_eq_map)
qed

lemma head_selection:
  assumes "out \<in> head n ` sort_values_desc key df"
  shows "map key out = map key (head n (stable_sort_desc key df))"
    and "distinct (map key df) \<Longrightarrow> out = head n (stable_sort_desc key df)"
proof -
  from assms obtain s where s: "s \<in> sort_values_desc key df" and out: "out = head n s"
    by blast
  have "map key s = map key (stable_sort_desc key df)"
    using s stable_in_sort_values_desc by (rule sort_values_desc_same_keys)
  then have "take n (map key s) = take n (map key (stable_sort_desc key df))"
    by simp
  then show "map key out = map key (head n (stable_sort_desc key df))"
    unfolding out head_def take_map .
  assume "distinct (map key df)"
  with s stable_in_sort_values_desc have "s = stable_sort_desc key df"
    by (rule sort_values_desc_unique)
  then show "out = head n (stable_sort_desc key df)"
    by (simp add: out)
qed

lemma head_selection_stable: "head n (stable_sort_desc key df) \<in> head n ` sort_values_desc key df"
  using stable_in_sort_values_desc by blast

lemma head_selection_unique:
  assumes "distinct (map key df)"
  shows "f ` sort_values_desc key df = {f (stable_sort_desc key df)}"
proof -
  have "sort_values_desc key df = {stable_sort_desc key df}"
    using sort_values_desc_unique[OF _ stable_in_sort_values_desc assms]
      stable_in_sort_values_desc[of key df] by blast
  then show ?thesis by simp
qed

lemma insert_desc_tie: "xs = [] \<or> key (hd xs) = key x \<Longrightarrow> insert_desc key x xs = x # xs"
  by (cases xs) auto

lemma stable_sort_desc_ties:
  "\<forall>x\<in>set df. \<forall>y\<in>set df. key x = key y \<Longrightarrow> stable_sort_desc key df = df"
proof (induction df)
  case Nil
  show ?case by (simp add: stable_sort_desc_def)
next
  case (Cons x df)
  from Cons.prems have "\<forall>a\<in>set df. \<forall>b\<in>set df. key a = key b"
    by (meson list.set_intros(2))
  then have "stable_sort_desc key df = df" by (rule Cons.IH)
  then have "stable_sort_desc key (x # df) = insert_desc key x df"
    by (simp add: stable_sort_desc_def)
  also have "\<dots> = x # df"
  proof (rule insert_desc_tie)
    show "df = [] \<or> key (hd df) = key x"
    proof (cases df)
      case Nil
      then show ?thesis by simp
    next
      case (Cons y ys)
      with Cons.prems have "key y = key x"
        by (meson list.set_intros)
      with Cons show ?thesis by simp
    qed
  qed
  finally show ?case .
qed

lemma same_key_sort_values_desc:
  assumes "mset s = mset df" and "\<forall>x\<in>set df. key x = k"
  shows "s \<in> sort_values_desc key df"
proof -
  from assms have "\<forall>x\<in>set s. key x = k"
    by (metis mset_eq_setD)
  then have "sorted_wrt (\<lambda>a b. key b \<le> key a) s"
    by (simp add: sorted_wrt_iff_nth_less)
  with assms(1) show ?thesis
    by (simp add: sort_values_desc_def)
qed




end
